theory Spec2Isabelle
  imports Main "HOL-Library.AList" "HOL-Library.Sublist"
begin

section \<open>The page component of \<^verbatim>\<open>src/app/pages/index.tsx\<close>\<close>

subsection \<open>Values of the host language\<close>

text \<open>
  An exception is an \<^verbatim>\<open>Error\<close> object: its \<^verbatim>\<open>name\<close> and its \<^verbatim>\<open>message\<close>.
  \<^verbatim>\<open>e.toString()\<close> (line 29) is \<^verbatim>\<open>Error.prototype.toString\<close>: the name when the message is
  empty, the message when the name is empty, and \<^verbatim>\<open>name + ": " + message\<close> otherwise.
\<close>

datatype exn = JsError (name: string) (message: string)

definition toString :: "exn \<Rightarrow> string" where
  "toString e =
     (if name e = [] then message e
      else if message e = [] then name e
      else name e @ '': '' @ message e)"

text \<open>
  Reading a property of \<^verbatim>\<open>undefined\<close> throws a \<^verbatim>\<open>TypeError\<close>; the text of its message is
  the engine's and plays no role below.
\<close>

definition TypeError_undefined :: "string \<Rightarrow> exn" where
  "TypeError_undefined what = JsError ''TypeError'' (what @ '' is undefined'')"

text \<open>
  A plain object is the list of its own properties in the order \<^verbatim>\<open>Object.keys\<close>,
  \<^verbatim>\<open>Object.values\<close> and \<^verbatim>\<open>for ... in\<close> enumerate them; \<^verbatim>\<open>obj[k]\<close> is \<^const>\<open>map_of\<close>.
\<close>

definition keys :: "(string \<times> 'a) list \<Rightarrow> string list" where
  "keys obj = map fst obj"

definition values_of :: "(string \<times> 'a) list \<Rightarrow> 'a list" where
  "values_of obj = map snd obj"

text \<open>\<^verbatim>\<open>xs[0]\<close>: the first element, \<^verbatim>\<open>undefined\<close> (here \<^const>\<open>None\<close>) on an empty array.\<close>

definition index0 :: "'a list \<Rightarrow> 'a option" where
  "index0 xs = (case xs of [] \<Rightarrow> None | x # _ \<Rightarrow> Some x)"

text \<open>
  A computed property name \<^verbatim>\<open>{ [k]: v }\<close> converts \<^verbatim>\<open>k\<close> to a string; \<^verbatim>\<open>undefined\<close>
  becomes the key \<^verbatim>\<open>"undefined"\<close>.
\<close>

definition computed_key :: "string option \<Rightarrow> string" where
  "computed_key k = (case k of None \<Rightarrow> ''undefined'' | Some s \<Rightarrow> s)"

text \<open>\<^verbatim>\<open>Array.prototype.join\<close> on an array of strings.\<close>

fun join :: "string \<Rightarrow> string list \<Rightarrow> string" where
  "join sep [] = []"
| "join sep [x] = x"
| "join sep (x # y # ys) = x @ sep @ join sep (y # ys)"

subsection \<open>Nodes (\<^verbatim>\<open>MetaNodeDataType\<close>, \<^verbatim>\<open>MetaNodePromptType\<close>, \<^verbatim>\<open>MetaNodeResolveType\<close>)\<close>

text \<open>
  \<^verbatim>\<open>Codec\<close> is imported from \<^verbatim>\<open>@/spec/codec\<close>: \<^verbatim>\<open>encode\<close> gives the text of a value,
  \<^verbatim>\<open>decode\<close> reads a text and may throw. \<^typ>\<open>'v\<close> is the type of decoded values,
  \<^typ>\<open>'e\<close> the type of rendered elements, \<^typ>\<open>'c\<close> the type of handlers attached to a process.
\<close>

record 'v codec =
  encode :: "'v \<Rightarrow> string"
  decode :: "string \<Rightarrow> exn + 'v"

record 'v node =
  spec :: string
  meta :: "string \<rightharpoonup> 'v"

record ('v, 'e) data_node = "'v node" +
  codec :: "'v codec"
  view :: "'v \<Rightarrow> exn + 'e"

text \<open>The field \<^verbatim>\<open>output\<close> is \<open>output_node\<close> here.\<close>

record ('v, 'e) process_node = "'v node" +
  inputs :: "(string \<times> ('v, 'e) data_node) list"
  output_node :: "('v, 'e) data_node"

record ('v, 'e, 'c) prompt_node = "('v, 'e) process_node" +
  prompt_handler :: 'c

record ('v, 'e, 'c) resolve_node = "('v, 'e) process_node" +
  resolve_handler :: 'c

subsection \<open>The state cells of \<^verbatim>\<open>App\<close> (lines 10 to 12)\<close>

record state =
  data :: string
  dataType :: string
  prompt :: "string option"

definition initial :: state where
  "initial = \<lparr>data = [], dataType = [], prompt = None\<rparr>"

text \<open>
  \<^verbatim>\<open>if (prompt)\<close>: \<^verbatim>\<open>undefined\<close> and the empty string are falsy. The result is the prompt
  id the first branch of line 15 works with.
\<close>

definition truthy_prompt :: "state \<Rightarrow> string option" where
  "truthy_prompt st =
     (case prompt st of None \<Rightarrow> None | Some p \<Rightarrow> if p = [] then None else Some p)"

subsection \<open>The transport (\<^verbatim>\<open>fetch\<close>, lines 65 to 69)\<close>

text \<open>
  \<^verbatim>\<open>fetch(url, {method: 'POST', body: formData})\<close> rejects or resolves to a response;
  \<^verbatim>\<open>req.json()\<close> rejects when the body is not JSON, and otherwise resolves to the decoded
  value, which line 71 stores in the cell \<^verbatim>\<open>data\<close> (declared by \<^verbatim>\<open>React.useState('')\<close>).
\<close>

record response =
  json :: "exn + string"

type_synonym formData = "(string \<times> string) list"

type_synonym transport = "string \<Rightarrow> formData \<Rightarrow> exn + response"

subsection \<open>Event handlers\<close>

text \<open>Lines 19 to 23, the \<^verbatim>\<open>submit\<close> property given to the prompt's component.\<close>

definition submit :: "('v, 'e, 'c) prompt_node \<Rightarrow> 'v \<Rightarrow> state \<Rightarrow> state" where
  "submit node out st =
     st\<lparr>dataType := spec (output_node node),
        data := encode (codec (output_node node)) out,
        prompt := None\<rparr>"

text \<open>Line 45, the button of a prompt process.\<close>

definition prompt_onClick :: "('v, 'e, 'c) prompt_node \<Rightarrow> state \<Rightarrow> state" where
  "prompt_onClick proc st = st\<lparr>prompt := Some (spec proc)\<rparr>"

text \<open>
  Lines 60 to 64: one field per key of \<^verbatim>\<open>proc.inputs\<close>, each holding \<^verbatim>\<open>data\<close>, the
  value of the cell at the render that created the handler.
\<close>

definition resolve_formData :: "('v, 'e, 'c) resolve_node \<Rightarrow> string \<Rightarrow> formData" where
  "resolve_formData proc d = map (\<lambda>i. (i, d)) (keys (inputs proc))"

definition resolve_url :: "('v, 'e, 'c) resolve_node \<Rightarrow> string" where
  "resolve_url proc = ''/api/resolver/'' @ spec proc"

text \<open>
  Lines 59 to 73, the button of a resolve process. The handler is asynchronous: its result
  is the outcome of the promise it returns (\<^const>\<open>Inl\<close> a rejection, which nothing in the
  component handles) and the state after it has settled; \<open>st\<close> is the state the setters of
  lines 70 to 72 act on. Nothing is set when \<^verbatim>\<open>fetch\<close> or \<^verbatim>\<open>req.json()\<close> rejects.
\<close>

definition resolve_onClick ::
  "('v, 'e, 'c) resolve_node \<Rightarrow> string \<Rightarrow> transport \<Rightarrow> state \<Rightarrow> (exn + unit) \<times> state" where
  "resolve_onClick proc d fetch st =
     (case fetch (resolve_url proc) (resolve_formData proc d) of
        Inl e \<Rightarrow> (Inl e, st)
      | Inr req \<Rightarrow>
          (case json req of
             Inl e \<Rightarrow> (Inl e, st)
           | Inr res \<Rightarrow>
               (Inr (), st\<lparr>prompt := None, data := res, dataType := spec (output_node proc)\<rparr>)))"

text \<open>Line 88, the editor.\<close>

definition onValueChange :: "string \<Rightarrow> state \<Rightarrow> state" where
  "onValueChange v st = st\<lparr>data := v\<rparr>"

text \<open>
  Lines 104 to 108, the button of an example; \<open>ex\<close> is \<^verbatim>\<open>node.meta.example\<close>, which the
  filter of line 100 has found in \<^verbatim>\<open>node.meta\<close>.
\<close>

definition load_example :: "('v, 'e) data_node \<Rightarrow> 'v \<Rightarrow> state \<Rightarrow> state" where
  "load_example node ex st =
     st\<lparr>prompt := None, dataType := spec node, data := encode (codec node) ex\<rparr>"

text \<open>Lines 117 to 120, the type selector.\<close>

definition select_onChange_handler :: "string \<Rightarrow> state \<Rightarrow> state" where
  "select_onChange_handler v st = st\<lparr>prompt := None, dataType := v\<rparr>"

subsection \<open>The rendered page\<close>

text \<open>
  \<^verbatim>\<open>dataNodeView\<close> is one of three elements: the prompt's component with its properties
  \<^verbatim>\<open>inputs\<close> and \<^verbatim>\<open>submit\<close> (line 17), the node's view in a \<^verbatim>\<open>div\<close> (line 27), or the
  text of line 29.
\<close>

datatype ('v, 'e, 'c) element =
    PromptElement 'c "(string \<times> string) list" "'v \<Rightarrow> state \<Rightarrow> state"
  | Div 'e
  | DivText string

text \<open>
  A process button (lines 37 to 48 and 51 to 76): the span of the input types, present
  when the process has inputs, the weight of the label, the label, the output type and
  the click handler.
\<close>

record 'h button =
  inputs_span :: "string option"
  bold :: bool
  label :: string
  output_span :: string
  onClick :: 'h

record ('v, 'e, 'c) page =
  prompt_buttons :: "(state \<Rightarrow> state) button list"
  resolve_buttons :: "(transport \<Rightarrow> state \<Rightarrow> (exn + unit) \<times> state) button list"
  editor_value :: string
  editor_onValueChange :: "string \<Rightarrow> state \<Rightarrow> state"
  example_buttons :: "(string \<times> (state \<Rightarrow> state)) list"
  select_value :: string
  select_onChange :: "string \<Rightarrow> state \<Rightarrow> state"
  select_options :: "string list"
  dataNodeView :: "('v, 'e, 'c) element option"

text \<open>Lines 26 to 30: \<^verbatim>\<open>try\<close> the decoding and the view, \<^verbatim>\<open>catch\<close> what either throws.\<close>

definition render_error :: "('v, 'e) data_node \<Rightarrow> exn \<Rightarrow> ('v, 'e, 'c) element" where
  "render_error dataNode e = DivText (''Error rendering '' @ spec dataNode @ '': '' @ toString e)"

definition render_data :: "('v, 'e) data_node \<Rightarrow> string \<Rightarrow> ('v, 'e, 'c) element" where
  "render_data dataNode d =
     (case decode (codec dataNode) d of
        Inl e \<Rightarrow> render_error dataNode e
      | Inr v \<Rightarrow>
          (case view dataNode v of
             Inl e \<Rightarrow> render_error dataNode e
           | Inr el \<Rightarrow> Div el))"

text \<open>
  Lines 13 to 31. Line 16 reads \<^verbatim>\<open>promptNodes[prompt].prompt\<close>; when the registry has no
  such key the render throws.
\<close>

definition render_view ::
  "(string \<times> ('v, 'e) data_node) list \<Rightarrow> (string \<times> ('v, 'e, 'c) prompt_node) list \<Rightarrow>
   state \<Rightarrow> exn + ('v, 'e, 'c) element option" where
  "render_view dataNodes promptNodes st =
     (case truthy_prompt st of
        Some p \<Rightarrow>
          (case map_of promptNodes p of
             None \<Rightarrow> Inl (TypeError_undefined ''promptNodes[prompt]'')
           | Some node \<Rightarrow>
               Inr (Some (PromptElement (prompt_handler node)
                            [(computed_key (index0 (keys (inputs node))), data st)]
                            (submit node))))
      | None \<Rightarrow>
          (case map_of dataNodes (dataType st) of
             Some dataNode \<Rightarrow> Inr (Some (render_data dataNode (data st)))
           | None \<Rightarrow> Inr None))"

text \<open>Lines 38 to 47 and 52 to 75, what the two kinds of button share.\<close>

definition process_button ::
  "string \<Rightarrow> ('v, 'e, 'z) process_node_scheme \<Rightarrow> 'h \<Rightarrow> 'h button" where
  "process_button dt proc h =
     \<lparr>inputs_span =
        (if length (keys (inputs proc)) > 0
         then Some (join '', '' (map spec (values_of (inputs proc)))) else None),
      bold = list_ex (\<lambda>i. spec i = dt) (values_of (inputs proc)),
      label = spec proc,
      output_span = spec (output_node proc),
      onClick = h\<rparr>"

text \<open>
  Lines 98 to 101: every key of \<^verbatim>\<open>dataNodes\<close>, its node, kept when \<^verbatim>\<open>'example' in node.meta\<close>.
  A key of the object always has a value, so the first \<^const>\<open>None\<close> does not occur.
\<close>

definition example_nodes ::
  "(string \<times> ('v, 'e) data_node) list \<Rightarrow> (('v, 'e) data_node \<times> 'v) list" where
  "example_nodes dataNodes =
     concat (map (\<lambda>k. case map_of dataNodes k of
                         None \<Rightarrow> []
                       | Some node \<Rightarrow>
                           (case meta node ''example'' of None \<Rightarrow> [] | Some ex \<Rightarrow> [(node, ex)]))
                 (keys dataNodes))"

text \<open>The component, lines 9 to 128.\<close>

definition App ::
  "(string \<times> ('v, 'e) data_node) list \<Rightarrow> (string \<times> ('v, 'e, 'c) resolve_node) list \<Rightarrow>
   (string \<times> ('v, 'e, 'c) prompt_node) list \<Rightarrow> state \<Rightarrow> exn + ('v, 'e, 'c) page" where
  "App dataNodes resolveNodes promptNodes st =
     (case render_view dataNodes promptNodes st of
        Inl e \<Rightarrow> Inl e
      | Inr v \<Rightarrow>
          Inr \<lparr>prompt_buttons =
                 map (\<lambda>proc. process_button (dataType st) proc (prompt_onClick proc))
                     (values_of promptNodes),
               resolve_buttons =
                 map (\<lambda>proc. process_button (dataType st) proc (resolve_onClick proc (data st)))
                     (values_of resolveNodes),
               editor_value = data st,
               editor_onValueChange = onValueChange,
               example_buttons =
                 map (\<lambda>(node, ex). (spec node, load_example node ex)) (example_nodes dataNodes),
               select_value = dataType st,
               select_onChange = select_onChange_handler,
               select_options = map spec (values_of dataNodes),
               dataNodeView = v\<rparr>)"

section \<open>The builder \<^verbatim>\<open>MetaNode\<close> (lines 177 to 245)\<close>

text \<open>
  Builders are objects, and the claim about them is about aliasing, so the model has a
  store. A cell is either a plain object (the value of the field \<^verbatim>\<open>t\<close>: its own
  properties in order) or an instance of \<^verbatim>\<open>MetaNode\<close>, which holds the address of its
  \<^verbatim>\<open>t\<close>. An address is an index of the store; allocation appends a cell.

  A property value is a string (\<^verbatim>\<open>spec\<close>, \<^verbatim>\<open>kind\<close>), a value handed to a step, or one of
  the two default arguments: the JSON codec of line 194 and the empty object of line 217.
\<close>

datatype 'a attr = Str string | Val 'a | Default_codec | Empty_object

datatype 'a cell = Object "(string \<times> 'a attr) list" | MetaNode nat

type_synonym 'a heap = "'a cell list"

definition alloc :: "'a heap \<Rightarrow> 'a cell \<Rightarrow> nat \<times> 'a heap" where
  "alloc h c = (length h, h @ [c])"

text \<open>
  \<^verbatim>\<open>this.t\<close>: the properties of the object the builder at address \<open>this\<close> holds, \<^const>\<open>None\<close>
  when \<open>this\<close> is not the address of a builder.
\<close>

definition this_t :: "'a heap \<Rightarrow> nat \<Rightarrow> (string \<times> 'a attr) list option" where
  "this_t h this =
     (if this < length h then
        (case h ! this of
           MetaNode t \<Rightarrow>
             (if t < length h then
                (case h ! t of Object ps \<Rightarrow> Some ps | MetaNode _ \<Rightarrow> None)
              else None)
         | Object _ \<Rightarrow> None)
      else None)"

text \<open>
  \<^verbatim>\<open>new MetaNode({ ...this.t, k: v })\<close>: the object literal copies the properties of
  \<^verbatim>\<open>this.t\<close> into a new object and sets \<open>k\<close> there (in place when \<open>k\<close> is already a
  property, at the end otherwise); the new instance holds that object.
\<close>

definition extend :: "string \<Rightarrow> 'a attr \<Rightarrow> nat \<Rightarrow> 'a heap \<Rightarrow> (nat \<times> 'a heap) option" where
  "extend k v this h =
     (case this_t h this of
        None \<Rightarrow> None
      | Some ps \<Rightarrow>
          (let (t, h1) = alloc h (Object (AList.update k v ps));
               (b, h2) = alloc h1 (MetaNode t)
           in Some (b, h2)))"

definition create :: "string \<Rightarrow> string \<Rightarrow> 'a heap \<Rightarrow> nat \<times> 'a heap" where
  "create s kind h =
     (let (t, h1) = alloc h (Object [(''spec'', Str s), (''kind'', Str kind)])
      in alloc h1 (MetaNode t))"

definition createData :: "string \<Rightarrow> 'a heap \<Rightarrow> nat \<times> 'a heap" where
  "createData s = create s ''data''"

definition createProcess :: "string \<Rightarrow> 'a heap \<Rightarrow> nat \<times> 'a heap" where
  "createProcess s = create s ''process''"

text \<open>
  The steps. Their names carry the class, the bare ones being fields of the nodes above.
  \<^verbatim>\<open>codec\<close> and \<^verbatim>\<open>inputs\<close> have a default for a missing argument.
\<close>

definition MetaNode_meta :: "'a \<Rightarrow> nat \<Rightarrow> 'a heap \<Rightarrow> (nat \<times> 'a heap) option" where
  "MetaNode_meta m = extend ''meta'' (Val m)"

definition MetaNode_codec :: "'a option \<Rightarrow> nat \<Rightarrow> 'a heap \<Rightarrow> (nat \<times> 'a heap) option" where
  "MetaNode_codec c =
     extend ''codec'' (case c of None \<Rightarrow> Default_codec | Some x \<Rightarrow> Val x)"

definition MetaNode_view :: "'a \<Rightarrow> nat \<Rightarrow> 'a heap \<Rightarrow> (nat \<times> 'a heap) option" where
  "MetaNode_view v = extend ''view'' (Val v)"

definition MetaNode_inputs :: "'a option \<Rightarrow> nat \<Rightarrow> 'a heap \<Rightarrow> (nat \<times> 'a heap) option" where
  "MetaNode_inputs i =
     extend ''inputs'' (case i of None \<Rightarrow> Empty_object | Some x \<Rightarrow> Val x)"

definition MetaNode_output :: "'a \<Rightarrow> nat \<Rightarrow> 'a heap \<Rightarrow> (nat \<times> 'a heap) option" where
  "MetaNode_output out = extend ''output'' (Val out)"

definition MetaNode_prompt :: "'a \<Rightarrow> nat \<Rightarrow> 'a heap \<Rightarrow> (nat \<times> 'a heap) option" where
  "MetaNode_prompt p = extend ''prompt'' (Val p)"

definition MetaNode_resolve :: "'a \<Rightarrow> nat \<Rightarrow> 'a heap \<Rightarrow> (nat \<times> 'a heap) option" where
  "MetaNode_resolve r = extend ''resolve'' (Val r)"

text \<open>\<^verbatim>\<open>build\<close> returns \<^verbatim>\<open>this.t\<close> itself: the address the builder holds.\<close>

definition build :: "nat \<Rightarrow> 'a heap \<Rightarrow> nat option" where
  "build this h =
     (if this < length h then
        (case h ! this of MetaNode t \<Rightarrow> Some t | Object _ \<Rightarrow> None)
      else None)"

text \<open>A call of one of the seven steps, with the property it sets.\<close>

datatype 'a step =
    Meta 'a | Codec "'a option" | View 'a | Inputs "'a option" | Output 'a
  | Prompt 'a | Resolve 'a

fun call :: "'a step \<Rightarrow> nat \<Rightarrow> 'a heap \<Rightarrow> (nat \<times> 'a heap) option" where
  "call (Meta m) = MetaNode_meta m"
| "call (Codec c) = MetaNode_codec c"
| "call (View v) = MetaNode_view v"
| "call (Inputs i) = MetaNode_inputs i"
| "call (Output out) = MetaNode_output out"
| "call (Prompt p) = MetaNode_prompt p"
| "call (Resolve r) = MetaNode_resolve r"

fun added :: "'a step \<Rightarrow> string \<times> 'a attr" where
  "added (Meta m) = (''meta'', Val m)"
| "added (Codec None) = (''codec'', Default_codec)"
| "added (Codec (Some c)) = (''codec'', Val c)"
| "added (View v) = (''view'', Val v)"
| "added (Inputs None) = (''inputs'', Empty_object)"
| "added (Inputs (Some i)) = (''inputs'', Val i)"
| "added (Output out) = (''output'', Val out)"
| "added (Prompt p) = (''prompt'', Val p)"
| "added (Resolve r) = (''resolve'', Val r)"

section \<open>Sample registries\<close>

text \<open>
  Two data types over text, one with an example in its metadata and a codec that rejects
  the empty text, and three processes: a prompt with two inputs, a prompt without inputs
  and a resolve with two inputs.
\<close>

definition sample_Text :: "(string, string) data_node" where
  "sample_Text =
     \<lparr>spec = ''Text'', meta = [''example'' \<mapsto> ''hello''],
      codec = \<lparr>encode = (\<lambda>v. v),
               decode = (\<lambda>t. if t = [] then Inl (JsError ''SyntaxError'' ''Unexpected end of JSON input'')
                              else Inr t)\<rparr>,
      view = Inr\<rparr>"

definition sample_Raw :: "(string, string) data_node" where
  "sample_Raw =
     \<lparr>spec = ''Raw'', meta = Map.empty,
      codec = \<lparr>encode = (\<lambda>v. v), decode = Inr\<rparr>,
      view = Inr\<rparr>"

definition sample_dataNodes :: "(string \<times> (string, string) data_node) list" where
  "sample_dataNodes = [(''Text'', sample_Text), (''Raw'', sample_Raw)]"

definition sample_ask :: "(string, string, string) prompt_node" where
  "sample_ask =
     \<lparr>spec = ''ask'', meta = Map.empty,
      inputs = [(''question'', sample_Text), (''hint'', sample_Raw)],
      output_node = sample_Text, prompt_handler = ''AskForm''\<rparr>"

definition sample_source :: "(string, string, string) prompt_node" where
  "sample_source =
     \<lparr>spec = ''source'', meta = Map.empty, inputs = [],
      output_node = sample_Raw, prompt_handler = ''SourceForm''\<rparr>"

definition sample_promptNodes :: "(string \<times> (string, string, string) prompt_node) list" where
  "sample_promptNodes = [(''ask'', sample_ask), (''source'', sample_source)]"

definition sample_double :: "(string, string, string) resolve_node" where
  "sample_double =
     \<lparr>spec = ''double'', meta = Map.empty,
      inputs = [(''a'', sample_Text), (''b'', sample_Raw)],
      output_node = sample_Text, resolve_handler = ''double''\<rparr>"

definition sample_resolveNodes :: "(string \<times> (string, string, string) resolve_node) list" where
  "sample_resolveNodes = [(''double'', sample_double)]"

definition viewing :: state where
  "viewing = \<lparr>data = ''21'', dataType = ''Text'', prompt = None\<rparr>"

definition prompting :: state where
  "prompting = \<lparr>data = ''21'', dataType = ''Text'', prompt = Some ''ask''\<rparr>"

text \<open>A transport whose request rejects, one whose body is not JSON, one that answers.\<close>

definition fetch_rejects :: transport where
  "fetch_rejects url form = Inl (JsError ''TypeError'' ''Failed to fetch'')"

definition fetch_not_json :: transport where
  "fetch_not_json url form =
     Inr \<lparr>json = Inl (JsError ''SyntaxError'' ''Unexpected token < in JSON at position 0'')\<rparr>"

definition fetch_answers :: "string \<Rightarrow> transport" where
  "fetch_answers res url form = Inr \<lparr>json = Inr res\<rparr>"

text \<open>Every text the page shows, for pages whose elements are texts.\<close>

definition button_text :: "'h button \<Rightarrow> string list" where
  "button_text b =
     (case inputs_span b of None \<Rightarrow> [] | Some s \<Rightarrow> [s]) @ [label b, output_span b]"

definition element_text :: "('v, string, string) element \<Rightarrow> string list" where
  "element_text el =
     (case el of
        PromptElement c inp sub \<Rightarrow> c # concat (map (\<lambda>(k, x). [k, x]) inp)
      | Div e \<Rightarrow> [e]
      | DivText s \<Rightarrow> [s])"

definition page_text :: "('v, string, string) page \<Rightarrow> string list" where
  "page_text pg =
     concat (map button_text (prompt_buttons pg)) @
     concat (map button_text (resolve_buttons pg)) @
     [editor_value pg] @ map fst (example_buttons pg) @ select_options pg @
     (case dataNodeView pg of None \<Rightarrow> [] | Some el \<Rightarrow> element_text el)"

definition prompting_source :: state where
  "prompting_source = \<lparr>data = ''21'', dataType = ''Text'', prompt = Some ''source''\<rparr>"

definition viewing_empty :: state where
  "viewing_empty = \<lparr>data = [], dataType = ''Text'', prompt = None\<rparr>"

text \<open>A builder for a data node, in an empty store.\<close>

definition number_builder :: "nat \<times> string heap" where
  "number_builder = createData ''Number'' []"

section \<open>Properties of the page\<close>

subsection \<open>An active prompt\<close>

lemma render_view_prompt:
  assumes "truthy_prompt st = Some p" and "map_of promptNodes p = Some node"
  shows "render_view dataNodes promptNodes st =
           Inr (Some (PromptElement (prompt_handler node)
                  [(computed_key (index0 (keys (inputs node))), data st)] (submit node)))"
  using assms by (simp add: render_view_def)

lemma App_prompt:
  assumes "truthy_prompt st = Some p" and "map_of promptNodes p = Some node"
  shows "\<exists>pg. App dataNodes resolveNodes promptNodes st = Inr pg \<and>
           dataNodeView pg = Some (PromptElement (prompt_handler node)
                  [(computed_key (index0 (keys (inputs node))), data st)] (submit node)) \<and>
           editor_onValueChange pg = onValueChange \<and> select_onChange pg = select_onChange_handler
           \<and> editor_value pg = data st \<and> select_value pg = dataType st"
  using render_view_prompt [OF assms] by (simp add: App_def)

text \<open>
  A click on the button of a prompt process makes it the active prompt, unless its id is
  the empty string, which line 15 takes for no prompt.
\<close>

lemma prompt_onClick_active:
  "truthy_prompt (prompt_onClick proc st) = (if spec proc = [] then None else Some (spec proc))"
  by (simp add: truthy_prompt_def prompt_onClick_def)

lemma submit_state:
  "submit node v st =
     \<lparr>data = encode (codec (output_node node)) v, dataType = spec (output_node node), prompt = None\<rparr>"
  by (simp add: submit_def)

text \<open>
  Claim C5. While a prompt process is active the page shows its component, and the
  \<^verbatim>\<open>submit\<close> property handed to it takes every value \<open>v\<close> to the state whose type is the
  id of the process's output, whose text is the output codec's encoding of \<open>v\<close>, and
  which has no active prompt.
\<close>
theorem submit_from_prompt:
  assumes "truthy_prompt st = Some p" and "map_of promptNodes p = Some node"
  shows "\<exists>pg inp sub. App dataNodes resolveNodes promptNodes st = Inr pg \<and>
           dataNodeView pg = Some (PromptElement (prompt_handler node) inp sub) \<and>
           (\<forall>v st'. sub v st' =
              \<lparr>data = encode (codec (output_node node)) v,
               dataType = spec (output_node node), prompt = None\<rparr>)"
proof -
  from App_prompt [OF assms] obtain pg where
    pg: "App dataNodes resolveNodes promptNodes st = Inr pg"
        "dataNodeView pg = Some (PromptElement (prompt_handler node)
                  [(computed_key (index0 (keys (inputs node))), data st)] (submit node))"
    by blast
  show ?thesis
    apply (rule exI [of _ pg])
    apply (rule exI [of _ "[(computed_key (index0 (keys (inputs node))), data st)]"])
    apply (rule exI [of _ "submit node"])
    using pg by (simp add: submit_state)
qed

theorem submit_from_prompt_witness:
  "truthy_prompt prompting = Some ''ask'' \<and> map_of sample_promptNodes ''ask'' = Some sample_ask \<and>
   (\<exists>pg inp sub. App sample_dataNodes sample_resolveNodes sample_promptNodes prompting = Inr pg \<and>
           dataNodeView pg = Some (PromptElement ''AskForm'' inp sub) \<and>
           (\<forall>v st'. sub v st' = \<lparr>data = v, dataType = ''Text'', prompt = None\<rparr>))"
proof -
  have h1: "truthy_prompt prompting = Some ''ask''"
    by (simp add: truthy_prompt_def prompting_def)
  have h2: "map_of sample_promptNodes ''ask'' = Some sample_ask"
    by (simp add: sample_promptNodes_def)
  have "output_node sample_ask = sample_Text" "prompt_handler sample_ask = ''AskForm''"
    "spec sample_Text = ''Text''" "encode (codec sample_Text) = (\<lambda>v. v)"
    by (simp_all add: sample_ask_def sample_Text_def)
  then show ?thesis
    using submit_from_prompt [OF h1 h2, of sample_dataNodes sample_resolveNodes] h1 h2
    by simp
qed

lemma sample_prompting:
  "truthy_prompt prompting = Some ''ask''" "map_of sample_promptNodes ''ask'' = Some sample_ask"
  by (simp_all add: truthy_prompt_def prompting_def sample_promptNodes_def)

lemma sample_ask_fields:
  "output_node sample_ask = sample_Text" "prompt_handler sample_ask = ''AskForm''"
  "inputs sample_ask = [(''question'', sample_Text), (''hint'', sample_Raw)]"
  "spec sample_ask = ''ask''"
  by (simp_all add: sample_ask_def)

text \<open>
  Claim C6. When the active prompt process declares at least one input, the \<^verbatim>\<open>inputs\<close>
  property its component receives has exactly one entry: the first declared input name,
  with the text of the buffer as it is. No other declared name is present.
\<close>
theorem prompt_receives_first_input:
  assumes "truthy_prompt st = Some p" and "map_of promptNodes p = Some node"
    and "keys (inputs node) = k # ks"
  shows "\<exists>pg. App dataNodes resolveNodes promptNodes st = Inr pg \<and>
           dataNodeView pg = Some (PromptElement (prompt_handler node) [(k, data st)] (submit node))"
  using App_prompt [OF assms(1,2), of dataNodes resolveNodes] assms(3)
  by (auto simp add: index0_def computed_key_def)

theorem prompt_receives_first_input_witness:
  "truthy_prompt prompting = Some ''ask'' \<and> map_of sample_promptNodes ''ask'' = Some sample_ask \<and>
   keys (inputs sample_ask) = ''question'' # [''hint''] \<and>
   (\<exists>pg. App sample_dataNodes sample_resolveNodes sample_promptNodes prompting = Inr pg \<and>
      dataNodeView pg = Some (PromptElement ''AskForm'' [(''question'', ''21'')] (submit sample_ask)))"
proof -
  have h3: "keys (inputs sample_ask) = ''question'' # [''hint'']"
    by (simp add: keys_def sample_ask_fields)
  have "data prompting = ''21''" by (simp add: prompting_def)
  then show ?thesis
    using prompt_receives_first_input [OF sample_prompting h3, of sample_dataNodes sample_resolveNodes]
      sample_prompting h3
    by (simp add: sample_ask_fields)
qed

text \<open>
  Claim C10. When the active prompt process declares no input, the \<^verbatim>\<open>inputs\<close> property
  its component receives is not empty: it has the single key \<^verbatim>\<open>"undefined"\<close>, with the text
  of the buffer.
\<close>
theorem prompt_without_inputs_receives_undefined_key:
  assumes "truthy_prompt st = Some p" and "map_of promptNodes p = Some node"
    and "inputs node = []"
  shows "\<exists>pg. App dataNodes resolveNodes promptNodes st = Inr pg \<and>
           dataNodeView pg =
             Some (PromptElement (prompt_handler node) [(''undefined'', data st)] (submit node))"
  using App_prompt [OF assms(1,2), of dataNodes resolveNodes] assms(3)
  by (auto simp add: index0_def computed_key_def keys_def)

theorem prompt_without_inputs_receives_undefined_key_witness:
  "truthy_prompt prompting_source = Some ''source'' \<and>
   map_of sample_promptNodes ''source'' = Some sample_source \<and>
   inputs sample_source = [] \<and>
   (\<exists>pg. App sample_dataNodes sample_resolveNodes sample_promptNodes prompting_source = Inr pg \<and>
      dataNodeView pg = Some (PromptElement ''SourceForm'' [(''undefined'', ''21'')] (submit sample_source)))"
proof -
  have h1: "truthy_prompt prompting_source = Some ''source''"
    by (simp add: truthy_prompt_def prompting_source_def)
  have h2: "map_of sample_promptNodes ''source'' = Some sample_source"
    by (simp add: sample_promptNodes_def)
  have h3: "inputs sample_source = []" by (simp add: sample_source_def)
  have "data prompting_source = ''21''" "prompt_handler sample_source = ''SourceForm''"
    by (simp_all add: prompting_source_def sample_source_def)
  then show ?thesis
    using prompt_without_inputs_receives_undefined_key [OF h1 h2 h3, of sample_dataNodes sample_resolveNodes]
      h1 h2 h3
    by simp
qed

text \<open>
  Claim C2 says that while a prompt is active the editor and the type selector are
  unavailable. On the sample registries, with the prompt \<^verbatim>\<open>ask\<close> active, the page shows
  the prompt's component, and its editor and selector are there and act: an edit replaces
  the text and the prompt stays active, a selection changes the type and clears the
  prompt.
\<close>
theorem prompting_editor_and_selector_act:
  "\<not> isl (App sample_dataNodes sample_resolveNodes sample_promptNodes prompting) \<and>
   dataNodeView (projr (App sample_dataNodes sample_resolveNodes sample_promptNodes prompting)) =
     Some (PromptElement ''AskForm'' [(''question'', ''21'')] (submit sample_ask)) \<and>
   editor_onValueChange (projr (App sample_dataNodes sample_resolveNodes sample_promptNodes prompting))
       ''22'' prompting =
     \<lparr>data = ''22'', dataType = ''Text'', prompt = Some ''ask''\<rparr> \<and>
   select_onChange (projr (App sample_dataNodes sample_resolveNodes sample_promptNodes prompting))
       ''Raw'' prompting =
     \<lparr>data = ''21'', dataType = ''Raw'', prompt = None\<rparr>"
proof -
  obtain pg where pg: "App sample_dataNodes sample_resolveNodes sample_promptNodes prompting = Inr pg"
    "dataNodeView pg = Some (PromptElement (prompt_handler sample_ask)
                  [(computed_key (index0 (keys (inputs sample_ask))), data prompting)] (submit sample_ask))"
    "editor_onValueChange pg = onValueChange" "select_onChange pg = select_onChange_handler"
    using App_prompt [OF sample_prompting, of sample_dataNodes sample_resolveNodes] by blast
  show ?thesis
    using pg
    by (simp add: sample_ask_fields keys_def index0_def computed_key_def onValueChange_def
        select_onChange_handler_def prompting_def)
qed

text \<open>
  Claim C2, amended. While a prompt is active the view pane holds the prompt's component
  and nothing else; the editor and the type selector stay on the page. An edit replaces
  the text and leaves the prompt active; a selection sets the type and clears the prompt.
\<close>
theorem prompting_page:
  assumes "truthy_prompt st = Some p" and "map_of promptNodes p = Some node"
  shows "\<exists>pg inp. App dataNodes resolveNodes promptNodes st = Inr pg \<and>
           dataNodeView pg = Some (PromptElement (prompt_handler node) inp (submit node)) \<and>
           editor_onValueChange pg text st = st\<lparr>data := text\<rparr> \<and>
           truthy_prompt (editor_onValueChange pg text st) = Some p \<and>
           select_onChange pg v st = st\<lparr>prompt := None, dataType := v\<rparr> \<and>
           truthy_prompt (select_onChange pg v st) = None"
proof -
  from App_prompt [OF assms] obtain pg where
    pg: "App dataNodes resolveNodes promptNodes st = Inr pg"
        "dataNodeView pg = Some (PromptElement (prompt_handler node)
                  [(computed_key (index0 (keys (inputs node))), data st)] (submit node))"
        "editor_onValueChange pg = onValueChange" "select_onChange pg = select_onChange_handler"
    by blast
  have "truthy_prompt (st\<lparr>data := text\<rparr>) = Some p"
    using assms(1) by (simp add: truthy_prompt_def)
  then show ?thesis
    apply (intro exI [of _ pg] exI [of _ "[(computed_key (index0 (keys (inputs node))), data st)]"])
    using pg by (simp add: onValueChange_def select_onChange_handler_def truthy_prompt_def)
qed

theorem prompting_page_witness:
  "truthy_prompt prompting = Some ''ask'' \<and> map_of sample_promptNodes ''ask'' = Some sample_ask \<and>
   (\<exists>pg inp. App sample_dataNodes sample_resolveNodes sample_promptNodes prompting = Inr pg \<and>
           dataNodeView pg = Some (PromptElement ''AskForm'' inp (submit sample_ask)) \<and>
           editor_onValueChange pg ''22'' prompting = \<lparr>data = ''22'', dataType = ''Text'', prompt = Some ''ask''\<rparr> \<and>
           select_onChange pg ''Raw'' prompting = \<lparr>data = ''21'', dataType = ''Raw'', prompt = None\<rparr>)"
proof -
  from prompting_page [OF sample_prompting, of sample_dataNodes sample_resolveNodes "''22''" "''Raw''"]
  obtain pg inp where pg: "App sample_dataNodes sample_resolveNodes sample_promptNodes prompting = Inr pg"
    "dataNodeView pg = Some (PromptElement (prompt_handler sample_ask) inp (submit sample_ask))"
    "editor_onValueChange pg ''22'' prompting = prompting\<lparr>data := ''22''\<rparr>"
    "select_onChange pg ''Raw'' prompting = prompting\<lparr>prompt := None, dataType := ''Raw''\<rparr>"
    by blast
  show ?thesis
    apply (intro conjI sample_prompting exI [of _ pg] exI [of _ inp])
    using pg by (simp_all add: sample_ask_fields prompting_def)
qed

subsection \<open>Viewing a data node\<close>

lemma App_viewing:
  assumes "truthy_prompt st = None" and "map_of dataNodes (dataType st) = Some dataNode"
  shows "\<exists>pg. App dataNodes resolveNodes promptNodes st = Inr pg \<and>
           dataNodeView pg = Some (render_data dataNode (data st)) \<and>
           editor_value pg = data st \<and> select_value pg = dataType st"
  using assms by (simp add: App_def render_view_def)

lemma message_suffix_toString: "suffix (message e) (toString e)"
  by (simp add: toString_def suffix_def)

text \<open>
  Claim C7. With no prompt active and a data node selected, a buffer text whose decoding
  throws is rendered as a text that names the node's id and carries the error's
  \<^verbatim>\<open>toString()\<close>, of which the error's message is the end; the render does not throw. A
  render sets no cell: the page is a function of the state, and the editor and the
  selector on it still hold the text and the type.
\<close>
theorem decode_failure_renders_error:
  assumes "truthy_prompt st = None" and "map_of dataNodes (dataType st) = Some dataNode"
    and "decode (codec dataNode) (data st) = Inl e"
  shows "\<exists>pg. App dataNodes resolveNodes promptNodes st = Inr pg \<and>
           dataNodeView pg =
             Some (DivText (''Error rendering '' @ spec dataNode @ '': '' @ toString e)) \<and>
           suffix (message e) (toString e) \<and>
           editor_value pg = data st \<and> select_value pg = dataType st"
  using App_viewing [OF assms(1,2), of resolveNodes promptNodes] assms(3)
  by (auto simp add: render_data_def render_error_def message_suffix_toString)

theorem decode_failure_renders_error_witness:
  "truthy_prompt viewing_empty = None \<and>
   map_of sample_dataNodes (dataType viewing_empty) = Some sample_Text \<and>
   decode (codec sample_Text) (data viewing_empty) =
     Inl (JsError ''SyntaxError'' ''Unexpected end of JSON input'') \<and>
   (\<exists>pg. App sample_dataNodes sample_resolveNodes sample_promptNodes viewing_empty = Inr pg \<and>
      dataNodeView pg =
        Some (DivText ''Error rendering Text: SyntaxError: Unexpected end of JSON input'') \<and>
      editor_value pg = [] \<and> select_value pg = ''Text'')"
proof -
  have h1: "truthy_prompt viewing_empty = None"
    by (simp add: truthy_prompt_def viewing_empty_def)
  have h2: "map_of sample_dataNodes (dataType viewing_empty) = Some sample_Text"
    by (simp add: sample_dataNodes_def viewing_empty_def)
  have h3: "decode (codec sample_Text) (data viewing_empty) =
      Inl (JsError ''SyntaxError'' ''Unexpected end of JSON input'')"
    by (simp add: sample_Text_def viewing_empty_def)
  have "spec sample_Text = ''Text''" "data viewing_empty = []" "dataType viewing_empty = ''Text''"
    by (simp_all add: sample_Text_def viewing_empty_def)
  then show ?thesis
    using decode_failure_renders_error [OF h1 h2 h3, of sample_resolveNodes sample_promptNodes]
      h1 h2 h3
    by (auto simp add: toString_def)
qed

subsection \<open>Examples\<close>

lemma example_nodes_distinct:
  assumes "distinct (keys dataNodes)"
  shows "example_nodes dataNodes =
           concat (map (\<lambda>(k, node). case meta node ''example'' of
                                       None \<Rightarrow> [] | Some ex \<Rightarrow> [(node, ex)]) dataNodes)"
proof -
  have "map_of dataNodes k = Some node" if "(k, node) \<in> set dataNodes" for k node
    using assms that by (simp add: keys_def)
  then show ?thesis
    unfolding example_nodes_def keys_def map_map
    by (intro arg_cong [where f = concat] map_cong) auto
qed

lemma load_example_state:
  "load_example node ex st = \<lparr>data = encode (codec node) ex, dataType = spec node, prompt = None\<rparr>"
  by (simp add: load_example_def)

lemma concat_map_map:
  "map f (concat (map g xs)) = concat (map (\<lambda>x. map f (g x)) xs)"
  by (induction xs) simp_all

text \<open>
  Claim C8. The page has one example button for each data node whose metadata has the
  key \<^verbatim>\<open>example\<close>, in the order of the registry, and none for the other nodes. A click on
  the button of a node sets the type to the node's id and the text to the node's codec's
  encoding of the example, and clears the active prompt.
\<close>
theorem load_example_buttons:
  assumes "distinct (keys dataNodes)"
    and "App dataNodes resolveNodes promptNodes st = Inr pg"
  shows "example_buttons pg =
           concat (map (\<lambda>(k, node). case meta node ''example'' of
                          None \<Rightarrow> []
                        | Some ex \<Rightarrow> [(spec node, load_example node ex)]) dataNodes) \<and>
         load_example node' ex' st' =
           \<lparr>data = encode (codec node') ex', dataType = spec node', prompt = None\<rparr>"
proof -
  have "example_buttons pg =
      map (\<lambda>(node, ex). (spec node, load_example node ex)) (example_nodes dataNodes)"
    using assms(2) by (auto simp add: App_def split: sum.splits)
  also have "\<dots> = concat (map (\<lambda>(k, node). case meta node ''example'' of
                          None \<Rightarrow> []
                        | Some ex \<Rightarrow> [(spec node, load_example node ex)]) dataNodes)"
    unfolding example_nodes_distinct [OF assms(1)] concat_map_map
    by (intro arg_cong [where f = concat] map_cong) (auto split: option.splits)
  finally show ?thesis by (simp add: load_example_state)
qed

lemma sample_viewing_page:
  "\<exists>pg. App sample_dataNodes sample_resolveNodes sample_promptNodes viewing = Inr pg"
  by (simp add: App_def render_view_def truthy_prompt_def viewing_def sample_dataNodes_def)

theorem load_example_buttons_witness:
  "distinct (keys sample_dataNodes) \<and>
   (\<exists>pg. App sample_dataNodes sample_resolveNodes sample_promptNodes viewing = Inr pg \<and>
      example_buttons pg = [(''Text'', load_example sample_Text ''hello'')] \<and>
      load_example sample_Text ''hello'' prompting =
        \<lparr>data = ''hello'', dataType = ''Text'', prompt = None\<rparr>)"
proof -
  have h1: "distinct (keys sample_dataNodes)"
    by (simp add: keys_def sample_dataNodes_def)
  obtain pg where h2: "App sample_dataNodes sample_resolveNodes sample_promptNodes viewing = Inr pg"
    using sample_viewing_page by blast
  have f: "meta sample_Text ''example'' = Some ''hello''" "meta sample_Raw ''example'' = None"
    "spec sample_Text = ''Text''" "encode (codec sample_Text) ''hello'' = ''hello''"
    by (simp_all add: sample_Text_def sample_Raw_def)
  note inst = load_example_buttons [OF h1 h2, of sample_Text "''hello''" prompting]
  have b: "example_buttons pg = [(''Text'', load_example sample_Text ''hello'')]"
    using inst [THEN conjunct1] f by (simp add: sample_dataNodes_def)
  have c: "load_example sample_Text ''hello'' prompting =
        \<lparr>data = ''hello'', dataType = ''Text'', prompt = None\<rparr>"
    using inst [THEN conjunct2] f by simp
  show ?thesis
    by (intro conjI h1 exI [of _ pg] h2 b c)
qed

subsection \<open>Resolve processes\<close>

lemma sample_double_fields:
  "spec sample_double = ''double''" "output_node sample_double = sample_Text"
  "inputs sample_double = [(''a'', sample_Text), (''b'', sample_Raw)]"
  by (simp_all add: sample_double_def)

text \<open>
  Claim C1 says that a failed remote call is shown to the user. On the sample registries,
  with the text \<^verbatim>\<open>21\<close> of type \<^verbatim>\<open>Text\<close> on view, a click on \<^verbatim>\<open>double\<close> whose request
  rejects gives a rejected promise and the state it started from, and the page rendered
  from that state shows the same texts as before the click, the view of \<^verbatim>\<open>21\<close> among
  them: nowhere the error.
\<close>
theorem resolve_failure_not_shown:
  "resolve_onClick sample_double ''21'' fetch_rejects viewing =
     (Inl (JsError ''TypeError'' ''Failed to fetch''), viewing) \<and>
   \<not> isl (App sample_dataNodes sample_resolveNodes sample_promptNodes
             (snd (resolve_onClick sample_double ''21'' fetch_rejects viewing))) \<and>
   dataNodeView (projr (App sample_dataNodes sample_resolveNodes sample_promptNodes
             (snd (resolve_onClick sample_double ''21'' fetch_rejects viewing)))) =
     Some (Div ''21'') \<and>
   page_text (projr (App sample_dataNodes sample_resolveNodes sample_promptNodes
             (snd (resolve_onClick sample_double ''21'' fetch_rejects viewing)))) =
     [''Text, Raw'', ''ask'', ''Text'', ''source'', ''Raw'', ''Text, Raw'', ''double'', ''Text'',
      ''21'', ''Text'', ''Text'', ''Raw'', ''21''] \<and>
   page_text (projr (App sample_dataNodes sample_resolveNodes sample_promptNodes viewing)) =
     [''Text, Raw'', ''ask'', ''Text'', ''source'', ''Raw'', ''Text, Raw'', ''double'', ''Text'',
      ''21'', ''Text'', ''Text'', ''Raw'', ''21'']"
proof -
  have r: "resolve_onClick sample_double ''21'' fetch_rejects viewing =
     (Inl (JsError ''TypeError'' ''Failed to fetch''), viewing)"
    by (simp add: resolve_onClick_def fetch_rejects_def)
  have v: "render_view sample_dataNodes sample_promptNodes viewing = Inr (Some (Div ''21''))"
    by (simp add: render_view_def truthy_prompt_def viewing_def sample_dataNodes_def
        render_data_def sample_Text_def)
  have e: "example_nodes sample_dataNodes = [(sample_Text, ''hello'')]"
    by (simp add: example_nodes_def keys_def sample_dataNodes_def sample_Text_def sample_Raw_def)
  have s: "spec sample_Text = ''Text''" "spec sample_Raw = ''Raw''"
    by (simp_all add: sample_Text_def sample_Raw_def)
  have b1: "button_text (process_button ''Text'' sample_ask h) = [''Text, Raw'', ''ask'', ''Text'']"
    for h :: "state \<Rightarrow> state"
    by (simp add: button_text_def process_button_def sample_ask_def keys_def values_of_def s)
  have b2: "button_text (process_button ''Text'' sample_source h) = [''source'', ''Raw'']"
    for h :: "state \<Rightarrow> state"
    by (simp add: button_text_def process_button_def sample_source_def keys_def values_of_def s)
  have b3: "button_text (process_button ''Text'' sample_double h) = [''Text, Raw'', ''double'', ''Text'']"
    for h :: "transport \<Rightarrow> state \<Rightarrow> (exn + unit) \<times> state"
    by (simp add: button_text_def process_button_def sample_double_def keys_def values_of_def s)
  have d: "data viewing = ''21''" "dataType viewing = ''Text''"
    by (simp_all add: viewing_def)
  have l: "values_of sample_promptNodes = [sample_ask, sample_source]"
    "values_of sample_resolveNodes = [sample_double]"
    "values_of sample_dataNodes = [sample_Text, sample_Raw]"
    by (simp_all add: values_of_def sample_promptNodes_def sample_resolveNodes_def
        sample_dataNodes_def)
  have p: "page_text (projr (App sample_dataNodes sample_resolveNodes sample_promptNodes viewing)) =
     [''Text, Raw'', ''ask'', ''Text'', ''source'', ''Raw'', ''Text, Raw'', ''double'', ''Text'',
      ''21'', ''Text'', ''Text'', ''Raw'', ''21'']"
    unfolding App_def v e l
    by (simp add: page_text_def d b1 b2 b3 s element_text_def)
  have q: "dataNodeView (projr (App sample_dataNodes sample_resolveNodes sample_promptNodes viewing)) =
     Some (Div ''21'')"
    "\<not> isl (App sample_dataNodes sample_resolveNodes sample_promptNodes viewing)"
    by (simp_all add: App_def v)
  show ?thesis
    unfolding r snd_conv using p q by simp
qed

text \<open>
  Claim C1, amended. When the request rejects, or the body of the response is not JSON,
  no cell is set: the type, the text and the active prompt are as before. The error is the
  rejection of the promise the click handler returns; the page rendered after the failure
  is the page rendered before it.
\<close>
theorem resolve_failure_keeps_state:
  assumes "fetch (resolve_url r) (resolve_formData r d) = Inl e \<or>
           (\<exists>req. fetch (resolve_url r) (resolve_formData r d) = Inr req \<and> json req = Inl e)"
  shows "resolve_onClick r d fetch st = (Inl e, st) \<and>
         App dataNodes resolveNodes promptNodes (snd (resolve_onClick r d fetch st)) =
           App dataNodes resolveNodes promptNodes st"
  using assms by (auto simp add: resolve_onClick_def)

theorem resolve_failure_keeps_state_witness:
  "(\<exists>req. fetch_not_json (resolve_url sample_double) (resolve_formData sample_double ''21'') = Inr req \<and>
      json req = Inl (JsError ''SyntaxError'' ''Unexpected token < in JSON at position 0'')) \<and>
   resolve_onClick sample_double ''21'' fetch_not_json viewing =
     (Inl (JsError ''SyntaxError'' ''Unexpected token < in JSON at position 0''), viewing)"
proof -
  have h: "\<exists>req. fetch_not_json (resolve_url sample_double) (resolve_formData sample_double ''21'') = Inr req \<and>
      json req = Inl (JsError ''SyntaxError'' ''Unexpected token < in JSON at position 0'')"
    by (simp add: fetch_not_json_def)
  show ?thesis
    using resolve_failure_keeps_state
        [where fetch = fetch_not_json and r = sample_double and d = "''21''" and st = viewing
           and e = "JsError ''SyntaxError'' ''Unexpected token < in JSON at position 0''"] h
    by blast
qed

text \<open>
  Claim C3. The click handler of every resolve button on the page is the handler of its
  process with the text of the buffer. The form it sends has one field for each declared
  input name of the process, in their order, and every field holds that text as it is.
  The form and the address are what the transport receives: whatever the transport makes
  of them is what the handler stores.
\<close>
theorem resolve_sends_buffer_for_every_input:
  assumes "App dataNodes resolveNodes promptNodes st = Inr pg"
  shows "map onClick (resolve_buttons pg) =
           map (\<lambda>r. resolve_onClick r (data st)) (values_of resolveNodes) \<and>
         map fst (resolve_formData r (data st)) = keys (inputs r) \<and>
         (\<forall>i \<in> set (keys (inputs r)). map_of (resolve_formData r (data st)) i = Some (data st)) \<and>
         set (map snd (resolve_formData r (data st))) \<subseteq> {data st} \<and>
         resolve_onClick r (data st) (\<lambda>url form. Inr \<lparr>json = Inr (observe url form)\<rparr>) st' =
           (Inr (), st'\<lparr>prompt := None,
                       data := observe (resolve_url r) (resolve_formData r (data st)),
                       dataType := spec (output_node r)\<rparr>)"
proof -
  have a: "map onClick (resolve_buttons pg) =
           map (\<lambda>r. resolve_onClick r (data st)) (values_of resolveNodes)"
    using assms by (auto simp add: App_def process_button_def comp_def split: sum.splits)
  have b: "map_of (map (\<lambda>i. (i, x)) ks) i = Some x" if "i \<in> set ks" for ks :: "string list" and i x
    using that by (induction ks) auto
  show ?thesis
    using a by (auto simp add: resolve_formData_def comp_def b resolve_onClick_def)
qed

theorem resolve_sends_buffer_for_every_input_witness:
  "\<exists>pg. App sample_dataNodes sample_resolveNodes sample_promptNodes viewing = Inr pg \<and>
     map onClick (resolve_buttons pg) = [resolve_onClick sample_double ''21''] \<and>
     resolve_formData sample_double ''21'' = [(''a'', ''21''), (''b'', ''21'')] \<and>
     map_of (resolve_formData sample_double ''21'') ''b'' = Some ''21''"
proof -
  obtain pg where h: "App sample_dataNodes sample_resolveNodes sample_promptNodes viewing = Inr pg"
    using sample_viewing_page by blast
  note inst = resolve_sends_buffer_for_every_input [OF h, of sample_double]
  have d: "data viewing = ''21''" by (simp add: viewing_def)
  have k: "''b'' \<in> set (keys (inputs sample_double))"
    by (simp add: keys_def sample_double_fields)
  have 1: "map onClick (resolve_buttons pg) = [resolve_onClick sample_double ''21'']"
    using inst [THEN conjunct1] by (simp add: d values_of_def sample_resolveNodes_def)
  have 2: "resolve_formData sample_double ''21'' = [(''a'', ''21''), (''b'', ''21'')]"
    by (simp add: resolve_formData_def keys_def sample_double_fields)
  have 3: "map_of (resolve_formData sample_double ''21'') ''b'' = Some ''21''"
    using inst [THEN conjunct2, THEN conjunct2, THEN conjunct1] k d by auto
  show ?thesis
    by (intro exI [of _ pg] conjI h 1 2 3)
qed

text \<open>
  Claim C4. When the request resolves and the body of the response decodes to \<open>res\<close>,
  the state after the click is: no active prompt, the text \<open>res\<close> as received, and the
  type the id of the process's output node. No codec is applied.
\<close>
theorem resolve_success_state:
  assumes "fetch (resolve_url r) (resolve_formData r d) = Inr req" and "json req = Inr res"
  shows "resolve_onClick r d fetch st =
           (Inr (), \<lparr>data = res, dataType = spec (output_node r), prompt = None\<rparr>)"
  using assms by (simp add: resolve_onClick_def)

theorem resolve_success_state_witness:
  "fetch_answers ''42'' (resolve_url sample_double) (resolve_formData sample_double ''21'') =
     Inr \<lparr>json = Inr ''42''\<rparr> \<and>
   json \<lparr>json = Inr ''42'' :: exn + string\<rparr> = Inr ''42'' \<and>
   resolve_onClick sample_double ''21'' (fetch_answers ''42'') prompting =
     (Inr (), \<lparr>data = ''42'', dataType = ''Text'', prompt = None\<rparr>)"
proof -
  have h1: "fetch_answers ''42'' (resolve_url sample_double) (resolve_formData sample_double ''21'') =
     Inr \<lparr>json = Inr ''42''\<rparr>"
    by (simp add: fetch_answers_def)
  have h2: "json \<lparr>json = Inr ''42'' :: exn + string\<rparr> = Inr ''42''" by simp
  have "spec (output_node sample_double) = ''Text''"
    by (simp add: sample_double_fields sample_Text_def)
  then show ?thesis
    using resolve_success_state
        [where fetch = "fetch_answers ''42''" and r = sample_double and d = "''21''"
           and st = prompting, OF h1 h2] h1
    by simp
qed

section \<open>Properties of the builder\<close>

lemma call_extend: "call s = extend (fst (added s)) (snd (added s))"
proof (cases s)
  case (Codec c)
  then show ?thesis by (cases c) (simp_all add: MetaNode_codec_def)
next
  case (Inputs i)
  then show ?thesis by (cases i) (simp_all add: MetaNode_inputs_def)
qed (simp_all add: MetaNode_meta_def MetaNode_view_def MetaNode_output_def
      MetaNode_prompt_def MetaNode_resolve_def)

lemma extend_result:
  assumes "this_t h b = Some ps"
  shows "extend k v b h =
           Some (Suc (length h), h @ [Object (AList.update k v ps), MetaNode (length h)])"
  using assms by (simp add: extend_def alloc_def)

lemma this_t_bounds:
  assumes "this_t h b = Some ps"
  shows "b < length h \<and> (\<exists>t. h ! b = MetaNode t \<and> t < length h \<and> h ! t = Object ps)"
  using assms by (auto simp add: this_t_def split: if_splits cell.splits)

lemma this_t_append:
  assumes "this_t h b = Some ps"
  shows "this_t (h @ h') b = Some ps"
proof -
  from this_t_bounds [OF assms] obtain t where
    t: "b < length h" "h ! b = MetaNode t" "t < length h" "h ! t = Object ps"
    by blast
  then show ?thesis by (simp add: this_t_def nth_append)
qed

lemma this_t_new:
  "this_t (h @ [Object qs, MetaNode (length h)]) (Suc (length h)) = Some qs"
  by (simp add: this_t_def nth_append)

lemma call_result:
  assumes "this_t h b = Some ps"
  shows "\<exists>h'. call s b h = Some (Suc (length h), h') \<and>
           h' = h @ [Object (AList.update (fst (added s)) (snd (added s)) ps), MetaNode (length h)] \<and>
           this_t h' (Suc (length h)) = Some (AList.update (fst (added s)) (snd (added s)) ps) \<and>
           this_t h' b = Some ps"
  using extend_result [OF assms] this_t_append [OF assms] this_t_new
  by (simp add: call_extend)

text \<open>
  Claim C9. A call of any of the seven steps on a builder allocates a new builder: its
  address is not one of the store before the call, every cell of that store is as it was
  (the builder the step was called on and its properties among them), and the properties
  of the new builder are those of the old one with the step's property set, the others
  kept. A second step called on the old builder afterwards starts from the old
  properties again, and the builder the first step made is not touched by it.
\<close>
theorem builder_step_returns_new_builder:
  assumes "this_t h b = Some ps"
  shows "\<exists>b1 h1 b2 h2.
           call s1 b h = Some (b1, h1) \<and>
           this_t h1 b1 = Some (AList.update (fst (added s1)) (snd (added s1)) ps) \<and>
           map_of (AList.update (fst (added s1)) (snd (added s1)) ps) =
             (map_of ps)(fst (added s1) \<mapsto> snd (added s1)) \<and>
           length h \<le> b1 \<and> take (length h) h1 = h \<and> this_t h1 b = Some ps \<and>
           call s2 b h1 = Some (b2, h2) \<and>
           this_t h2 b2 = Some (AList.update (fst (added s2)) (snd (added s2)) ps) \<and>
           this_t h2 b1 = Some (AList.update (fst (added s1)) (snd (added s1)) ps) \<and>
           this_t h2 b = Some ps \<and> b2 \<noteq> b1 \<and> take (length h1) h2 = h1"
proof -
  from call_result [OF assms, of s1] obtain h1 where
    1: "call s1 b h = Some (Suc (length h), h1)"
       "h1 = h @ [Object (AList.update (fst (added s1)) (snd (added s1)) ps), MetaNode (length h)]"
       "this_t h1 (Suc (length h)) = Some (AList.update (fst (added s1)) (snd (added s1)) ps)"
       "this_t h1 b = Some ps"
    by blast
  from call_result [OF 1(4), of s2] obtain h2 where
    2: "call s2 b h1 = Some (Suc (length h1), h2)"
       "h2 = h1 @ [Object (AList.update (fst (added s2)) (snd (added s2)) ps), MetaNode (length h1)]"
       "this_t h2 (Suc (length h1)) = Some (AList.update (fst (added s2)) (snd (added s2)) ps)"
       "this_t h2 b = Some ps"
    by blast
  have 3: "this_t h2 (Suc (length h)) = Some (AList.update (fst (added s1)) (snd (added s1)) ps)"
    unfolding 2(2) by (rule this_t_append [OF 1(3)])
  have 4: "take (length h) h1 = h" "take (length h1) h2 = h1" "Suc (length h1) \<noteq> Suc (length h)"
    by (simp_all add: 1(2) 2(2))
  have 5: "map_of (AList.update (fst (added s1)) (snd (added s1)) ps) =
             (map_of ps)(fst (added s1) \<mapsto> snd (added s1))"
    by (rule update_conv')
  have 6: "length h \<le> Suc (length h)" by simp
  show ?thesis
    by (intro exI [of _ "Suc (length h)"] exI [of _ h1] exI [of _ "Suc (length h1)"]
        exI [of _ h2] conjI 1(1) 1(3) 5 6 4(1) 1(4) 2(1) 2(3) 3 2(4) 4(3) 4(2))
qed

theorem builder_step_returns_new_builder_witness:
  "number_builder = (1, [Object [(''spec'', Str ''Number''), (''kind'', Str ''data'')], MetaNode 0]) \<and>
   this_t (snd number_builder) 1 = Some [(''spec'', Str ''Number''), (''kind'', Str ''data'')] \<and>
   (\<exists>b1 h1 b2 h2.
      call (Meta ''m'') 1 (snd number_builder) = Some (b1, h1) \<and>
      this_t h1 b1 =
        Some [(''spec'', Str ''Number''), (''kind'', Str ''data''), (''meta'', Val ''m'')] \<and>
      this_t h1 1 = Some [(''spec'', Str ''Number''), (''kind'', Str ''data'')] \<and>
      call (Codec None) 1 h1 = Some (b2, h2) \<and>
      this_t h2 b2 =
        Some [(''spec'', Str ''Number''), (''kind'', Str ''data''), (''codec'', Default_codec)] \<and>
      this_t h2 b1 =
        Some [(''spec'', Str ''Number''), (''kind'', Str ''data''), (''meta'', Val ''m'')] \<and>
      this_t h2 1 = Some [(''spec'', Str ''Number''), (''kind'', Str ''data'')] \<and> b2 \<noteq> b1)"
proof -
  have n: "number_builder =
      (1, [Object [(''spec'', Str ''Number''), (''kind'', Str ''data'')], MetaNode 0])"
    by (simp add: number_builder_def createData_def create_def alloc_def)
  have h: "this_t (snd number_builder) 1 = Some [(''spec'', Str ''Number''), (''kind'', Str ''data'')]"
    by (simp add: n this_t_def)
  have u: "AList.update ''meta'' (Val ''m'') [(''spec'', Str ''Number''), (''kind'', Str ''data'')] =
      [(''spec'', Str ''Number''), (''kind'', Str ''data''), (''meta'', Val ''m'')]"
    "AList.update ''codec'' Default_codec [(''spec'', Str ''Number''), (''kind'', Str ''data'')] =
      [(''spec'', Str ''Number''), (''kind'', Str ''data''), (''codec'', Default_codec)]"
    by simp_all
  note inst = builder_step_returns_new_builder [OF h, of "Meta ''m''" "Codec None",
      unfolded added.simps fst_conv snd_conv u]
  have "\<exists>b1 h1 b2 h2.
      call (Meta ''m'') 1 (snd number_builder) = Some (b1, h1) \<and>
      this_t h1 b1 =
        Some [(''spec'', Str ''Number''), (''kind'', Str ''data''), (''meta'', Val ''m'')] \<and>
      this_t h1 1 = Some [(''spec'', Str ''Number''), (''kind'', Str ''data'')] \<and>
      call (Codec None) 1 h1 = Some (b2, h2) \<and>
      this_t h2 b2 =
        Some [(''spec'', Str ''Number''), (''kind'', Str ''data''), (''codec'', Default_codec)] \<and>
      this_t h2 b1 =
        Some [(''spec'', Str ''Number''), (''kind'', Str ''data''), (''meta'', Val ''m'')] \<and>
      this_t h2 1 = Some [(''spec'', Str ''Number''), (''kind'', Str ''data'')] \<and> b2 \<noteq> b1"
    using inst by (elim exE conjE) (intro exI conjI; assumption)
  with n h show ?thesis by (intro conjI)
qed

end
